theory Spec2Isabelle
  imports Main "HOL-Library.Word"
begin

unbundle bit_operations_syntax

section \<open>HotSpot's inflated monitor: objectMonitor.hpp and objectMonitor.inline.hpp\<close>

text \<open>
  A shallow embedding of the inline accessors of \<open>ObjectMonitor\<close> and of
  \<open>ObjectMonitorContentionMark\<close>.

  \<^item> The embedding is of an LP64 build: \<open>void*\<close>, \<open>uintptr_t\<close>, \<open>intptr_t\<close>, \<open>intx\<close>
    and \<open>int64_t\<close> are 64-bit words, \<open>int\<close> is a 32-bit word. A signed reading of a
    word is \<open>sint\<close>, a signed comparison is \<open><s\<close>, and the conversion
    \<open>intptr_t(int)\<close> is the sign extension \<open>scast\<close>.
  \<^item> The embedding is of the build in which \<open>ASSERT\<close> is defined, the one in which
    the \<open>assert\<close> statements and the \<open>#ifdef ASSERT\<close> blocks of the source are
    compiled. A failed assertion stops the VM; here it is the value \<open>Inl\<close> of the
    result, carrying the message of the assertion.
  \<^item> Every \<open>Atomic\<close> operation is one step on the field it names: the embedding is
    sequential. Of memory ordering it keeps one thing: an unconditional store to the
    owner field returns, with the monitor, the primitive that wrote the field,
    \<open>Atomic::store\<close> or \<open>Atomic::release_store\<close>.
  \<^item> A method that writes a field returns the monitor after the write. A method that
    is \<open>const\<close> in the source is a function of the monitor. The three queries on the
    weak handle are embedded with the state they run in, the monitor and the objects
    that loads have kept alive, and return that state with their answer.
\<close>

subsection \<open>Types\<close>

type_synonym address = "64 word"
type_synonym oop = "64 word"

definition nullptr :: "64 word" where
  "nullptr = 0"

datatype error = assert_failed string

text \<open>\<open>markWord\<close> (oops/markWord.hpp) wraps one \<open>uintptr_t\<close>, read by \<open>value()\<close>.\<close>

datatype markWord = markWord (mark_value: "64 word")

text \<open>
  Modelled from the spec: \<open>WeakHandle\<close> (oops/weakHandle.hpp) is "a weak, peekable
  handle type supporting is null, peek (may return no object)". A handle is either null
  or names a storage slot; the slot holds the referent, or null once the referent was
  collected. \<open>peek\<close> reads the slot and \<open>resolve\<close> reads it as well (the two differ in
  the garbage collector's barrier only).
\<close>

datatype WeakHandle = Null_Handle | Slot oop

fun is_null :: "WeakHandle \<Rightarrow> bool" where
  "is_null Null_Handle = True"
| "is_null (Slot v) = False"

fun peek :: "WeakHandle \<Rightarrow> oop" where
  "peek Null_Handle = nullptr"
| "peek (Slot v) = v"

fun resolve :: "WeakHandle \<Rightarrow> oop" where
  "resolve Null_Handle = nullptr"
| "resolve (Slot v) = v"

text \<open>
  \<open>LockingMode\<close> and \<open>UseObjectMonitorTable\<close> are flags of runtime/globals.hpp, and
  \<open>ThreadIdentifier::current()\<close> (runtime/threadIdentifier.hpp) is the next thread
  identifier to be handed out, an \<open>int64_t\<close>. They are parameters of the embedding.
  \<open>LockingMode\<close> is one of \<open>LM_MONITOR\<close>, \<open>LM_LEGACY\<close> and \<open>LM_LIGHTWEIGHT\<close>; the
  source tests for \<open>LM_LIGHTWEIGHT\<close> only.
\<close>

datatype LockingMode_t = LM_MONITOR | LM_LEGACY | LM_LIGHTWEIGHT

record VM =
  UseObjectMonitorTable :: bool
  LockingMode :: LockingMode_t
  ThreadIdentifier_current :: "64 word"

text \<open>
  What the monitor reads of a \<open>JavaThread\<close>: its \<open>lock_id()\<close>, its \<open>lock_stack()\<close> and
  \<open>is_lock_owned(address)\<close>. The class is not part of the two files.
\<close>

record JavaThread =
  lock_id :: "64 word"
  lock_stack :: "oop list"
  is_lock_owned :: "address \<Rightarrow> bool"

text \<open>Modelled from the spec: \<open>LockStack::contains\<close>, "its lock stack contains the object".\<close>

definition contains :: "oop list \<Rightarrow> oop \<Rightarrow> bool" where
  "contains ls obj = (obj \<in> set ls)"

text \<open>
  The fields of \<open>ObjectMonitor\<close>, in the order of the class. A field \<open>_x\<close> of the source
  is \<open>f_x\<close> here; pointers are addresses.
\<close>

record ObjectMonitor =
  f_metadata :: "64 word"
  f_object :: WeakHandle
  f_owner :: "64 word"
  f_stack_locker :: address
  f_previous_owner_tid :: "64 word"
  f_next_om :: address
  f_recursions :: "64 word"
  f_EntryList :: address
  f_cxq :: address
  f_succ :: address
  f_Responsible :: address
  f_SpinDuration :: "32 word"
  f_contentions :: "32 word"
  f_WaitSet :: address
  f_waiters :: "32 word"
  f_WaitSetLock :: "32 word"

subsection \<open>The owner field and its reserved values\<close>

text \<open>
  \<open>DEFLATER_MARKER_VALUE\<close>, \<open>DEFLATER_MARKER\<close>, \<open>ANONYMOUS_OWNER\<close> and
  \<open>anon_owner_ptr()\<close> are lines 180 to 187 of objectMonitor.hpp, \<open>is_owner\<close> and
  \<open>is_owner_anonymous\<close> its lines 301 and 302; the other accessors are lines 42 to 46
  and 99 to 131 of objectMonitor.inline.hpp. The assertion of \<open>owner_for\<close> compares
  \<open>int64_t\<close> values, so the comparisons are signed.
\<close>

definition DEFLATER_MARKER_VALUE :: "64 word" where
  "DEFLATER_MARKER_VALUE = 2"

definition DEFLATER_MARKER :: "64 word" where
  "DEFLATER_MARKER = DEFLATER_MARKER_VALUE"

definition ANONYMOUS_OWNER :: "64 word" where
  "ANONYMOUS_OWNER = 1"

definition anon_owner_ptr :: "64 word" where
  "anon_owner_ptr = ANONYMOUS_OWNER"

definition owner_for :: "VM \<Rightarrow> JavaThread \<Rightarrow> error + 64 word" where
  "owner_for vm thread =
     (let tid = lock_id thread in
      if \<not> (3 \<le>s tid \<and> tid <s ThreadIdentifier_current vm)
      then Inl (assert_failed ''must be reasonable'')
      else Inr tid)"

definition owner_raw :: "ObjectMonitor \<Rightarrow> 64 word" where
  "owner_raw m = f_owner m"

definition has_owner :: "ObjectMonitor \<Rightarrow> bool" where
  "has_owner m = (let owner = owner_raw m in owner \<noteq> nullptr \<and> owner \<noteq> DEFLATER_MARKER)"

definition owner :: "ObjectMonitor \<Rightarrow> 64 word" where
  "owner m = (let owner = owner_raw m in if owner \<noteq> DEFLATER_MARKER then owner else nullptr)"

definition is_owner :: "VM \<Rightarrow> ObjectMonitor \<Rightarrow> JavaThread \<Rightarrow> error + bool" where
  "is_owner vm m thread =
     (case owner_for vm thread of
        Inl e \<Rightarrow> Inl e
      | Inr tok \<Rightarrow> Inr (owner m = tok))"

definition is_owner_anonymous :: "ObjectMonitor \<Rightarrow> bool" where
  "is_owner_anonymous m = (owner_raw m = anon_owner_ptr)"

definition owner_is_DEFLATER_MARKER :: "ObjectMonitor \<Rightarrow> bool" where
  "owner_is_DEFLATER_MARKER m = (owner_raw m = DEFLATER_MARKER)"

definition stack_locker :: "ObjectMonitor \<Rightarrow> address" where
  "stack_locker m = f_stack_locker m"

definition set_stack_locker :: "ObjectMonitor \<Rightarrow> address \<Rightarrow> ObjectMonitor" where
  "set_stack_locker m locker = m\<lparr>f_stack_locker := locker\<rparr>"

definition is_stack_locker :: "ObjectMonitor \<Rightarrow> JavaThread \<Rightarrow> bool" where
  "is_stack_locker m current = (is_owner_anonymous m \<and> is_lock_owned current (stack_locker m))"

subsection \<open>Contentions and waiters\<close>

text \<open>
  Lines 95 to 97 and 133 to 146 of objectMonitor.inline.hpp, and \<open>is_busy()\<close>, lines 281
  to 292 of objectMonitor.hpp, with its local \<open>ret_code\<close> rebound at each \<open>|=\<close>.
  \<open>Atomic::add\<close> on an \<open>int\<close> wraps around.
\<close>

definition waiters :: "ObjectMonitor \<Rightarrow> 32 word" where
  "waiters m = f_waiters m"

definition contentions :: "ObjectMonitor \<Rightarrow> 32 word" where
  "contentions m = f_contentions m"


definition add_to_contentions :: "ObjectMonitor \<Rightarrow> 32 word \<Rightarrow> ObjectMonitor" where
  "add_to_contentions m v = m\<lparr>f_contentions := f_contentions m + v\<rparr>"

definition is_busy :: "ObjectMonitor \<Rightarrow> bool" where
  "is_busy m =
     (let ret_code = (scast (f_waiters m) :: 64 word) OR f_cxq m OR f_EntryList m;
          cnts = contentions m;
          ret_code = (if 0 <s cnts then ret_code OR scast cnts else ret_code);
          ret_code = (if \<not> owner_is_DEFLATER_MARKER m then ret_code OR owner_raw m
                      else ret_code)
      in ret_code \<noteq> 0)"

subsection \<open>Guarded stores to the owner field\<close>

text \<open>
  Lines 154 to 221 of objectMonitor.inline.hpp, and lines 327 to 333 of objectMonitor.hpp.
  \<open>Atomic::cmpxchg\<close> (runtime/atomic.hpp) on one word gives the value found, and the
  content of the word afterwards. \<open>log_trace\<close> writes to the log only and is left out.
  In \<open>release_clear_owner\<close> and \<open>set_owner_from_raw\<close> the load of \<open>prev\<close> and the
  assertions on it are the \<open>#ifdef ASSERT\<close> blocks of the source.
  An unconditional store to the owner field gives the primitive that writes it and the
  monitor after the write: \<open>release_clear_owner\<close> writes with \<open>Atomic::release_store\<close>,
  the others with \<open>Atomic::store\<close>.
\<close>

datatype atomic_write = Atomic_store | Atomic_release_store

definition cmpxchg :: "64 word \<Rightarrow> 64 word \<Rightarrow> 64 word \<Rightarrow> 64 word \<times> 64 word" where
  "cmpxchg dest compare_value exchange_value =
     (dest, if dest = compare_value then exchange_value else dest)"

definition release_clear_owner ::
    "VM \<Rightarrow> ObjectMonitor \<Rightarrow> JavaThread \<Rightarrow> error + (atomic_write \<times> ObjectMonitor)" where
  "release_clear_owner vm m old_owner =
     (case owner_for vm old_owner of
        Inl e \<Rightarrow> Inl e
      | Inr old_value \<Rightarrow>
          (let prev = f_owner m in
           if \<not> (prev = old_value) then Inl (assert_failed ''unexpected prev owner'')
           else Inr (Atomic_release_store, m\<lparr>f_owner := nullptr\<rparr>)))"

definition set_owner_from_raw ::
    "VM \<Rightarrow> ObjectMonitor \<Rightarrow> 64 word \<Rightarrow> 64 word \<Rightarrow> error + (atomic_write \<times> ObjectMonitor)" where
  "set_owner_from_raw vm m old_value new_value =
     (let prev = f_owner m in
      if \<not> (prev <s ThreadIdentifier_current vm) then Inl (assert_failed ''must be reasonable'')
      else if \<not> (prev = old_value) then Inl (assert_failed ''unexpected prev owner'')
      else Inr (Atomic_store, m\<lparr>f_owner := new_value\<rparr>))"

definition set_owner_from ::
    "VM \<Rightarrow> ObjectMonitor \<Rightarrow> 64 word \<Rightarrow> JavaThread \<Rightarrow> error + (atomic_write \<times> ObjectMonitor)" where
  "set_owner_from vm m old_value current =
     (case owner_for vm current of
        Inl e \<Rightarrow> Inl e
      | Inr tok \<Rightarrow> set_owner_from_raw vm m old_value tok)"

definition set_owner_from_BasicLock ::
    "VM \<Rightarrow> ObjectMonitor \<Rightarrow> JavaThread \<Rightarrow> error + (atomic_write \<times> ObjectMonitor)" where
  "set_owner_from_BasicLock vm m current =
     (let m1 = set_stack_locker m nullptr in
      if \<not> is_owner_anonymous m1 then Inl (assert_failed ''should be anon for now'')
      else (case owner_for vm current of
              Inl e \<Rightarrow> Inl e
            | Inr tok \<Rightarrow> Inr (Atomic_store, m1\<lparr>f_owner := tok\<rparr>)))"

definition try_set_owner_from_raw ::
    "VM \<Rightarrow> ObjectMonitor \<Rightarrow> 64 word \<Rightarrow> 64 word \<Rightarrow> error + (64 word \<times> ObjectMonitor)" where
  "try_set_owner_from_raw vm m old_value new_value =
     (if \<not> (new_value <s ThreadIdentifier_current vm) then Inl (assert_failed ''must be reasonable'')
      else (let (prev, owner') = cmpxchg (f_owner m) old_value new_value
            in Inr (prev, m\<lparr>f_owner := owner'\<rparr>)))"

definition try_set_owner_from ::
    "VM \<Rightarrow> ObjectMonitor \<Rightarrow> 64 word \<Rightarrow> JavaThread \<Rightarrow> error + (64 word \<times> ObjectMonitor)" where
  "try_set_owner_from vm m old_value current =
     (case owner_for vm current of
        Inl e \<Rightarrow> Inl e
      | Inr tok \<Rightarrow> try_set_owner_from_raw vm m old_value tok)"

definition set_owner_anonymous ::
    "VM \<Rightarrow> ObjectMonitor \<Rightarrow> error + (atomic_write \<times> ObjectMonitor)" where
  "set_owner_anonymous vm m = set_owner_from_raw vm m nullptr anon_owner_ptr"

definition set_owner_from_anonymous ::
    "VM \<Rightarrow> ObjectMonitor \<Rightarrow> JavaThread \<Rightarrow> error + (atomic_write \<times> ObjectMonitor)" where
  "set_owner_from_anonymous vm m owner' = set_owner_from vm m anon_owner_ptr owner'"

subsection \<open>The metadata word\<close>

text \<open>
  Lines 61 to 93 of objectMonitor.inline.hpp. \<open>hash()\<close> returns the \<open>uintptr_t\<close> word
  as an \<open>intptr_t\<close> and \<open>set_hash\<close> stores an \<open>intptr_t\<close> as a \<open>uintptr_t\<close>: the same
  64 bits.
\<close>

definition metadata :: "ObjectMonitor \<Rightarrow> 64 word" where
  "metadata m = f_metadata m"

definition set_metadata :: "ObjectMonitor \<Rightarrow> 64 word \<Rightarrow> ObjectMonitor" where
  "set_metadata m v = m\<lparr>f_metadata := v\<rparr>"

definition header :: "VM \<Rightarrow> ObjectMonitor \<Rightarrow> error + markWord" where
  "header vm m =
     (if \<not> (\<not> UseObjectMonitorTable vm)
      then Inl (assert_failed ''Lightweight locking with OM table does not use header'')
      else Inr (markWord (metadata m)))"

definition set_header :: "VM \<Rightarrow> ObjectMonitor \<Rightarrow> markWord \<Rightarrow> error + ObjectMonitor" where
  "set_header vm m hdr =
     (if \<not> (\<not> UseObjectMonitorTable vm)
      then Inl (assert_failed ''Lightweight locking with OM table does not use header'')
      else Inr (set_metadata m (mark_value hdr)))"

definition hash :: "VM \<Rightarrow> ObjectMonitor \<Rightarrow> error + 64 word" where
  "hash vm m =
     (if \<not> UseObjectMonitorTable vm
      then Inl (assert_failed ''Only used by lightweight locking with OM table'')
      else Inr (metadata m))"

definition set_hash :: "VM \<Rightarrow> ObjectMonitor \<Rightarrow> 64 word \<Rightarrow> error + ObjectMonitor" where
  "set_hash vm m h =
     (if \<not> UseObjectMonitorTable vm
      then Inl (assert_failed ''Only used by lightweight locking with OM table'')
      else Inr (set_metadata m h))"

subsection \<open>The weak reference to the object\<close>

text \<open>
  Modelled from the spec: \<open>ObjectMonitor::object()\<close> is defined in objectMonitor.cpp;
  the spec's \<open>object\<close> is "a weak, peekable reference to the locked object", which
  \<open>object()\<close> resolves.
\<close>

definition object :: "ObjectMonitor \<Rightarrow> oop" where
  "object m = resolve (f_object m)"

text \<open>
  Modelled from the spec: the collector's side of a load through the weak handle. The
  handle is "used for liveness checks during deflation, never for keeping the object
  alive": a load through \<open>peek\<close> leaves the objects that loads have kept alive as they
  are, a load through \<open>resolve\<close> adds its referent to them. The list holds the objects
  kept alive so far, the latest first.
\<close>

type_synonym kept_alive = "oop list"

definition peek_load :: "WeakHandle \<Rightarrow> kept_alive \<Rightarrow> oop \<times> kept_alive" where
  "peek_load h kept = (peek h, kept)"

definition resolve_load :: "WeakHandle \<Rightarrow> kept_alive \<Rightarrow> oop \<times> kept_alive" where
  "resolve_load h kept =
     (resolve h, if resolve h = nullptr then kept else resolve h # kept)"

text \<open>
  Lines 246 to 262 of objectMonitor.inline.hpp. Each query takes the monitor and the
  objects kept alive, and returns its answer, the monitor and the objects kept alive
  after it. The handle is read with \<open>_object.peek()\<close>.
\<close>

definition object_peek ::
    "ObjectMonitor \<Rightarrow> kept_alive \<Rightarrow> oop \<times> ObjectMonitor \<times> kept_alive" where
  "object_peek m kept =
     (if is_null (f_object m) then (nullptr, m, kept)
      else (let (obj, kept') = peek_load (f_object m) kept in (obj, m, kept')))"

definition object_is_dead ::
    "ObjectMonitor \<Rightarrow> kept_alive \<Rightarrow> bool \<times> ObjectMonitor \<times> kept_alive" where
  "object_is_dead m kept =
     (let (obj, m', kept') = object_peek m kept in (obj = nullptr, m', kept'))"

definition object_refers_to ::
    "ObjectMonitor \<Rightarrow> kept_alive \<Rightarrow> oop \<Rightarrow> bool \<times> ObjectMonitor \<times> kept_alive" where
  "object_refers_to m kept obj =
     (if is_null (f_object m) then (False, m, kept)
      else (let (referent, kept') = peek_load (f_object m) kept in (referent = obj, m, kept')))"

subsection \<open>Ownership through the lightweight path\<close>

text \<open>
  Lines 48 to 59 of objectMonitor.inline.hpp; the \<open>return false\<close> after the
  conditional is never reached.
\<close>

definition is_entered :: "VM \<Rightarrow> ObjectMonitor \<Rightarrow> JavaThread \<Rightarrow> error + bool" where
  "is_entered vm m current =
     (if is_owner_anonymous m then
        (if LockingMode vm = LM_LIGHTWEIGHT
         then Inr (contains (lock_stack current) (object m))
         else Inr (is_lock_owned current (stack_locker m)))
      else is_owner vm m current)"

subsection \<open>The contention mark\<close>

text \<open>
  Lines 237 to 244 of objectMonitor.inline.hpp: the constructor and the destructor of
  \<open>ObjectMonitorContentionMark\<close>, as functions of the monitor that the mark's
  \<open>_monitor\<close> points to.
\<close>

definition ObjectMonitorContentionMark_ctor :: "ObjectMonitor \<Rightarrow> ObjectMonitor" where
  "ObjectMonitorContentionMark_ctor monitor = add_to_contentions monitor 1"

definition ObjectMonitorContentionMark_dtor :: "ObjectMonitor \<Rightarrow> ObjectMonitor" where
  "ObjectMonitorContentionMark_dtor monitor = add_to_contentions monitor (- 1)"


subsection \<open>Concrete states\<close>

text \<open>
  A monitor just inflated for the object at address 4096, a VM that has handed out the
  thread identifiers 3 and 4, and the thread with identifier 3, which has the object on
  its lock stack and whose stack is the range from 28672 to 32768.
\<close>

definition fresh_monitor :: ObjectMonitor where
  "fresh_monitor =
     \<lparr>f_metadata = 0, f_object = Slot 4096, f_owner = 0, f_stack_locker = 0,
      f_previous_owner_tid = 0, f_next_om = 0, f_recursions = 0, f_EntryList = 0, f_cxq = 0,
      f_succ = 0, f_Responsible = 0, f_SpinDuration = 0, f_contentions = 0, f_WaitSet = 0,
      f_waiters = 0, f_WaitSetLock = 0\<rparr>"

definition example_vm :: VM where
  "example_vm =
     \<lparr>UseObjectMonitorTable = False, LockingMode = LM_LIGHTWEIGHT, ThreadIdentifier_current = 5\<rparr>"

definition example_thread :: JavaThread where
  "example_thread =
     \<lparr>lock_id = 3, lock_stack = [4096], is_lock_owned = (\<lambda>a. 28672 \<le> a \<and> a < 32768)\<rparr>"

section \<open>Properties\<close>

subsection \<open>Auxiliary facts\<close>

lemmas reserved_defs =
  nullptr_def anon_owner_ptr_def ANONYMOUS_OWNER_def DEFLATER_MARKER_def DEFLATER_MARKER_VALUE_def

lemma scast_int_eq_0: "(scast (w :: 32 word) :: 64 word) = 0 \<longleftrightarrow> w = 0"
proof
  assume "scast w = (0 :: 64 word)"
  then have "sint (scast w :: 64 word) = 0" by simp
  then have "sint w = 0" by (simp add: sint_up_scast is_up)
  then show "w = 0" by (simp add: signed_eq_0_iff)
qed simp

lemma owner_for_Inr:
  "owner_for vm t = Inr v \<longleftrightarrow>
     v = lock_id t \<and> 3 \<le> sint (lock_id t) \<and> sint (lock_id t) < sint (ThreadIdentifier_current vm)"
  by (auto simp: owner_for_def Let_def word_sle_eq word_sless_alt)

lemma owner_for_Inl:
  "owner_for vm t = Inl e \<longleftrightarrow>
     e = assert_failed ''must be reasonable'' \<and>
     \<not> (3 \<le> sint (lock_id t) \<and> sint (lock_id t) < sint (ThreadIdentifier_current vm))"
  by (auto simp: owner_for_def Let_def word_sle_eq word_sless_alt)

lemma token_not_reserved: "3 \<le> sint (v :: 64 word) \<Longrightarrow> v \<noteq> 0 \<and> v \<noteq> 1 \<and> v \<noteq> 2"
  by auto

lemma sint_succ_int: "sint (c :: 32 word) < 2147483647 \<Longrightarrow> sint (c + 1) = sint c + 1"
  using sint_ge [of c] by (simp add: sint_word_ariths signed_take_bit_int_eq_self)

subsection \<open>The predicate \<open>is_busy\<close>\<close>

text \<open>
  C1, as the code has it. \<open>is_busy()\<close> returns false exactly when the owner field is
  null or \<open>DEFLATER_MARKER\<close>, \<open>_cxq\<close> and \<open>_EntryList\<close> are null, \<open>_waiters\<close> is zero and
  \<open>contentions()\<close> is not positive; in every other state it returns true. A negative
  contention count, the mark of a deflation in progress, does not make the monitor busy:
  the source adds the count to the result only under \<open>if (cnts > 0)\<close>.
\<close>

theorem is_busy_false_iff:
  "is_busy m = False \<longleftrightarrow>
     (owner_raw m = nullptr \<or> owner_raw m = DEFLATER_MARKER) \<and>
     f_cxq m = nullptr \<and> f_EntryList m = nullptr \<and>
     waiters m = 0 \<and> sint (contentions m) \<le> 0"
  apply (simp add: is_busy_def Let_def or_eq_0_iff scast_int_eq_0 owner_is_DEFLATER_MARKER_def
      nullptr_def waiters_def word_sless_alt)
  apply (auto simp: signed_eq_0_iff)
  done

theorem is_busy_false_iff_witness:
  "is_busy fresh_monitor = False \<and>
   is_busy (fresh_monitor\<lparr>f_owner := DEFLATER_MARKER, f_contentions := - 2147483648\<rparr>) = False \<and>
   is_busy (fresh_monitor\<lparr>f_contentions := 1\<rparr>) = True"
  using is_busy_false_iff [of fresh_monitor]
    is_busy_false_iff [of "fresh_monitor\<lparr>f_owner := DEFLATER_MARKER, f_contentions := - 2147483648\<rparr>"]
    is_busy_false_iff [of "fresh_monitor\<lparr>f_contentions := 1\<rparr>"]
  by (simp add: fresh_monitor_def owner_raw_def waiters_def contentions_def reserved_defs)

text \<open>
  C1 as it is written asks for a contention count of zero. A monitor that is being
  deflated (owner \<open>DEFLATER_MARKER\<close>, count \<open>INT_MIN\<close>) has a count other than zero
  and is not busy.
\<close>

theorem is_busy_negative_contentions_counterexample:
  "is_busy (fresh_monitor\<lparr>f_owner := DEFLATER_MARKER, f_contentions := - 2147483648\<rparr>) = False \<and>
   contentions (fresh_monitor\<lparr>f_owner := DEFLATER_MARKER, f_contentions := - 2147483648\<rparr>) \<noteq> 0"
  by (simp add: is_busy_def fresh_monitor_def contentions_def owner_is_DEFLATER_MARKER_def
      owner_raw_def word_sless_alt)

subsection \<open>The owner as the accessors report it\<close>

text \<open>
  C2. \<open>owner()\<close> returns the owner field, and null when the field is \<open>DEFLATER_MARKER\<close>;
  \<open>has_owner()\<close> is true exactly when the field is neither null nor \<open>DEFLATER_MARKER\<close>.
  When the field is \<open>DEFLATER_MARKER\<close> the monitor has no owner, \<open>owner()\<close> is null and
  \<open>is_owner(t)\<close> is true for no thread \<open>t\<close>: it is false for every thread whose
  \<open>lock_id\<close> passes the assertion of \<open>owner_for\<close>.
\<close>

theorem owner_hides_DEFLATER_MARKER:
  "owner m = (if owner_raw m = DEFLATER_MARKER then nullptr else owner_raw m) \<and>
   has_owner m = (owner_raw m \<noteq> nullptr \<and> owner_raw m \<noteq> DEFLATER_MARKER) \<and>
   (owner_raw m = DEFLATER_MARKER \<longrightarrow>
      \<not> has_owner m \<and> owner m = nullptr \<and> is_owner vm m t \<noteq> Inr True \<and>
      (owner_for vm t = Inr tok \<longrightarrow> is_owner vm m t = Inr False))"
  using token_not_reserved [of "lock_id t"]
  by (auto simp: owner_def has_owner_def Let_def is_owner_def nullptr_def owner_for_Inr
      owner_for_Inl split: sum.splits)

theorem owner_hides_DEFLATER_MARKER_witness:
  "owner_raw (fresh_monitor\<lparr>f_owner := DEFLATER_MARKER\<rparr>) = DEFLATER_MARKER \<and>
   owner_for example_vm example_thread = Inr 3 \<and>
   owner (fresh_monitor\<lparr>f_owner := DEFLATER_MARKER\<rparr>) = nullptr \<and>
   has_owner (fresh_monitor\<lparr>f_owner := DEFLATER_MARKER\<rparr>) = False \<and>
   is_owner example_vm (fresh_monitor\<lparr>f_owner := DEFLATER_MARKER\<rparr>) example_thread = Inr False"
  using owner_hides_DEFLATER_MARKER
    [of "fresh_monitor\<lparr>f_owner := DEFLATER_MARKER\<rparr>" example_vm example_thread 3]
  by (simp add: owner_raw_def owner_for_def example_vm_def example_thread_def word_sle_eq
      word_sless_alt)

subsection \<open>The compare-and-swap on the owner field\<close>

text \<open>
  C3, as the code has it. For every prior value \<open>p\<close> of the owner field, every
  \<open>old_value\<close> and every \<open>new_value\<close> that is below \<open>ThreadIdentifier::current()\<close> as a
  signed 64-bit integer, \<open>try_set_owner_from_raw(old_value, new_value)\<close> returns \<open>p\<close>;
  it stores \<open>new_value\<close> in the owner field when \<open>p\<close> is \<open>old_value\<close> and leaves the whole
  monitor as it was otherwise. For any other \<open>new_value\<close> the assertion at the head of
  the function fails, before the compare-and-swap.
\<close>

theorem try_set_owner_from_raw_cas:
  "(new_value <s ThreadIdentifier_current vm \<longrightarrow>
      try_set_owner_from_raw vm m old_value new_value =
        Inr (owner_raw m, if owner_raw m = old_value then m\<lparr>f_owner := new_value\<rparr> else m)) \<and>
   (\<not> new_value <s ThreadIdentifier_current vm \<longrightarrow>
      try_set_owner_from_raw vm m old_value new_value =
        Inl (assert_failed ''must be reasonable''))"
  by (simp add: try_set_owner_from_raw_def cmpxchg_def owner_raw_def)

theorem try_set_owner_from_raw_cas_witness:
  "3 <s ThreadIdentifier_current example_vm \<and>
   try_set_owner_from_raw example_vm fresh_monitor nullptr 3 =
     Inr (nullptr, fresh_monitor\<lparr>f_owner := 3\<rparr>) \<and>
   try_set_owner_from_raw example_vm (fresh_monitor\<lparr>f_owner := 4\<rparr>) nullptr 3 =
     Inr (4, fresh_monitor\<lparr>f_owner := 4\<rparr>) \<and>
   try_set_owner_from_raw example_vm fresh_monitor nullptr 7 =
     Inl (assert_failed ''must be reasonable'')"
  using try_set_owner_from_raw_cas [of 3 example_vm fresh_monitor nullptr]
    try_set_owner_from_raw_cas [of 3 example_vm "fresh_monitor\<lparr>f_owner := 4\<rparr>" nullptr]
    try_set_owner_from_raw_cas [of 7 example_vm fresh_monitor nullptr]
  by (simp add: example_vm_def word_sless_alt owner_raw_def nullptr_def fresh_monitor_def)

text \<open>
  C3 as it is written speaks of every pair. With \<open>ThreadIdentifier::current()\<close> at 5, the
  call with the pair (null, 7) on an unowned monitor stores nothing and returns nothing:
  it fails the assertion.
\<close>

theorem try_set_owner_from_raw_unreasonable_counterexample:
  "try_set_owner_from_raw example_vm fresh_monitor nullptr 7 =
     Inl (assert_failed ''must be reasonable'')"
  by (simp add: try_set_owner_from_raw_def example_vm_def word_sless_alt)

subsection \<open>The stores that expect a prior value\<close>

text \<open>
  C4, as the code has it. \<open>set_owner_from_raw(old_value, new_value)\<close> and
  \<open>release_clear_owner(old_owner)\<close> fail an assertion whenever the owner field is not
  the expected prior value (for \<open>release_clear_owner\<close>, the token that \<open>owner_for\<close>
  gives for \<open>old_owner\<close>; the assertion of \<open>owner_for\<close> itself can fail first).
  \<open>set_owner_from_raw\<close> stores \<open>new_value\<close>, with \<open>Atomic::store\<close>, when the owner
  field is \<open>old_value\<close> and that value is below \<open>ThreadIdentifier::current()\<close> as a signed
  64-bit integer; when the owner field is \<open>old_value\<close> and that value is not below
  \<open>ThreadIdentifier::current()\<close>, it fails the assertion "must be reasonable", which comes
  before the comparison. \<open>release_clear_owner\<close> stores null, with
  \<open>Atomic::release_store\<close>, when \<open>owner_for\<close> gives the owner field for \<open>old_owner\<close>.
\<close>

theorem guarded_owner_stores:
  "(owner_raw m \<noteq> old_value \<longrightarrow>
      set_owner_from_raw vm m old_value new_value =
        Inl (assert_failed (if owner_raw m <s ThreadIdentifier_current vm
                            then ''unexpected prev owner'' else ''must be reasonable''))) \<and>
   (owner_raw m = old_value \<and> old_value <s ThreadIdentifier_current vm \<longrightarrow>
      set_owner_from_raw vm m old_value new_value =
        Inr (Atomic_store, m\<lparr>f_owner := new_value\<rparr>)) \<and>
   (owner_raw m = old_value \<and> \<not> old_value <s ThreadIdentifier_current vm \<longrightarrow>
      set_owner_from_raw vm m old_value new_value =
        Inl (assert_failed ''must be reasonable'')) \<and>
   (owner_for vm old_owner \<noteq> Inr (owner_raw m) \<longrightarrow>
      (\<exists>e. release_clear_owner vm m old_owner = Inl e)) \<and>
   (owner_for vm old_owner = Inl e \<longrightarrow> release_clear_owner vm m old_owner = Inl e) \<and>
   (owner_for vm old_owner = Inr tok \<and> tok \<noteq> owner_raw m \<longrightarrow>
      release_clear_owner vm m old_owner = Inl (assert_failed ''unexpected prev owner'')) \<and>
   (owner_for vm old_owner = Inr (owner_raw m) \<longrightarrow>
      release_clear_owner vm m old_owner =
        Inr (Atomic_release_store, m\<lparr>f_owner := nullptr\<rparr>))"
  by (auto simp: set_owner_from_raw_def release_clear_owner_def owner_raw_def Let_def
      split: sum.splits)

theorem guarded_owner_stores_witness:
  "owner_raw fresh_monitor = nullptr \<and>
   nullptr <s ThreadIdentifier_current example_vm \<and>
   owner_for example_vm example_thread = Inr 3 \<and>
   set_owner_from_raw example_vm fresh_monitor 3 4 =
     Inl (assert_failed ''unexpected prev owner'') \<and>
   set_owner_from_raw example_vm fresh_monitor nullptr anon_owner_ptr =
     Inr (Atomic_store, fresh_monitor\<lparr>f_owner := anon_owner_ptr\<rparr>) \<and>
   set_owner_from_raw example_vm (fresh_monitor\<lparr>f_owner := 5\<rparr>) 5 nullptr =
     Inl (assert_failed ''must be reasonable'') \<and>
   set_owner_from_raw example_vm (fresh_monitor\<lparr>f_owner := 4\<rparr>) 4 nullptr =
     Inr (Atomic_store, fresh_monitor\<lparr>f_owner := nullptr\<rparr>) \<and>
   release_clear_owner example_vm fresh_monitor example_thread =
     Inl (assert_failed ''unexpected prev owner'') \<and>
   release_clear_owner example_vm fresh_monitor (example_thread\<lparr>lock_id := 2\<rparr>) =
     Inl (assert_failed ''must be reasonable'') \<and>
   release_clear_owner example_vm (fresh_monitor\<lparr>f_owner := 3\<rparr>) example_thread =
     Inr (Atomic_release_store, fresh_monitor\<lparr>f_owner := nullptr\<rparr>)"
  using guarded_owner_stores
      [of fresh_monitor 3 example_vm 4 example_thread "assert_failed ''must be reasonable''" 3]
    guarded_owner_stores
      [of fresh_monitor nullptr example_vm anon_owner_ptr
        "example_thread\<lparr>lock_id := 2\<rparr>" "assert_failed ''must be reasonable''" 3]
    guarded_owner_stores
      [of "fresh_monitor\<lparr>f_owner := 5\<rparr>" 5 example_vm nullptr example_thread
        "assert_failed ''must be reasonable''" 3]
    guarded_owner_stores
      [of "fresh_monitor\<lparr>f_owner := 4\<rparr>" 4 example_vm nullptr example_thread
        "assert_failed ''must be reasonable''" 3]
    guarded_owner_stores
      [of "fresh_monitor\<lparr>f_owner := 3\<rparr>" 3 example_vm 4 example_thread
        "assert_failed ''must be reasonable''" 3]
  by (simp add: set_owner_from_raw_def release_clear_owner_def owner_for_def owner_raw_def
      example_vm_def example_thread_def fresh_monitor_def nullptr_def word_sle_eq
      word_sless_alt)

text \<open>
  C4 as it is written lets \<open>set_owner_from_raw\<close> store whenever the caller supplies the
  true prior value. With \<open>ThreadIdentifier::current()\<close> at 5 and the owner field at 7, the
  call that expects 7 fails the first assertion and stores nothing.
\<close>

theorem set_owner_from_raw_unreasonable_counterexample:
  "owner_raw (fresh_monitor\<lparr>f_owner := 7\<rparr>) = 7 \<and>
   set_owner_from_raw example_vm (fresh_monitor\<lparr>f_owner := 7\<rparr>) 7 nullptr =
     Inl (assert_failed ''must be reasonable'')"
  by (simp add: set_owner_from_raw_def example_vm_def owner_raw_def word_sless_alt)

subsection \<open>The deflation flag\<close>




subsection \<open>Header or hash\<close>

text \<open>
  C6. Without \<open>UseObjectMonitorTable\<close>, \<open>set_header(hdr)\<close> writes the metadata word and
  \<open>header()\<close> then returns \<open>hdr\<close>, while \<open>hash()\<close> and \<open>set_hash(h)\<close> fail their
  assertion. With \<open>UseObjectMonitorTable\<close>, \<open>set_hash(h)\<close> writes the metadata word and
  \<open>hash()\<close> then returns \<open>h\<close>, while \<open>header()\<close> and \<open>set_header(hdr)\<close> fail theirs. The
  flag is the VM's, so one monitor never sees both uses.
\<close>

theorem metadata_header_or_hash:
  "(\<not> UseObjectMonitorTable vm \<longrightarrow>
      set_header vm m hdr = Inr (set_metadata m (mark_value hdr)) \<and>
      header vm (set_metadata m (mark_value hdr)) = Inr hdr \<and>
      (\<exists>e. hash vm m = Inl e) \<and> (\<exists>e. set_hash vm m h = Inl e)) \<and>
   (UseObjectMonitorTable vm \<longrightarrow>
      set_hash vm m h = Inr (set_metadata m h) \<and>
      hash vm (set_metadata m h) = Inr h \<and>
      (\<exists>e. header vm m = Inl e) \<and> (\<exists>e. set_header vm m hdr = Inl e))"
  by (simp add: set_header_def header_def hash_def set_hash_def set_metadata_def metadata_def)

theorem metadata_header_or_hash_witness:
  "UseObjectMonitorTable example_vm = False \<and>
   UseObjectMonitorTable (example_vm\<lparr>UseObjectMonitorTable := True\<rparr>) = True \<and>
   header example_vm (set_metadata fresh_monitor 9) = Inr (markWord 9) \<and>
   hash example_vm fresh_monitor =
     Inl (assert_failed ''Only used by lightweight locking with OM table'') \<and>
   hash (example_vm\<lparr>UseObjectMonitorTable := True\<rparr>) (set_metadata fresh_monitor 9) = Inr 9 \<and>
   header (example_vm\<lparr>UseObjectMonitorTable := True\<rparr>) fresh_monitor =
     Inl (assert_failed ''Lightweight locking with OM table does not use header'')"
  using metadata_header_or_hash [of example_vm fresh_monitor "markWord 9" 9]
    metadata_header_or_hash
      [of "example_vm\<lparr>UseObjectMonitorTable := True\<rparr>" fresh_monitor "markWord 9" 9]
  by (simp add: example_vm_def hash_def header_def)

subsection \<open>The weak handle\<close>

text \<open>
  A load through \<open>resolve\<close> of a handle whose referent is there keeps the referent
  alive, and a load through \<open>peek\<close> never does: the two differ on the collector's side.
\<close>

lemma resolve_load_keeps_alive:
  "v \<noteq> nullptr \<Longrightarrow> resolve_load (Slot v) kept = (v, v # kept)"
  by (simp add: resolve_load_def)

lemma peek_load_keeps_nothing: "snd (peek_load h kept) = kept"
  by (simp add: peek_load_def)

text \<open>
  C7. \<open>object_is_dead()\<close> returns true exactly when \<open>object_peek()\<close> returns null,
  which is when the handle is null or its referent was collected.
  \<open>object_refers_to(obj)\<close> returns false when the handle is null and otherwise tells
  whether the referent that \<open>object_peek()\<close> sees is \<open>obj\<close>. Each of the three leaves
  the monitor as it was and keeps no object alive: the state after it, the monitor and
  the objects kept alive, is the state before it.
\<close>

theorem object_queries:
  "fst (object_is_dead m kept) = (fst (object_peek m kept) = nullptr) \<and>
   fst (object_is_dead m kept) = (f_object m = Null_Handle \<or> f_object m = Slot nullptr) \<and>
   fst (object_refers_to m kept obj) =
     (\<not> is_null (f_object m) \<and> fst (object_peek m kept) = obj) \<and>
   snd (object_peek m kept) = (m, kept) \<and>
   snd (object_is_dead m kept) = (m, kept) \<and>
   snd (object_refers_to m kept obj) = (m, kept)"
  by (cases "f_object m")
    (simp_all add: object_is_dead_def object_peek_def object_refers_to_def peek_load_def)

theorem object_queries_witness:
  "object_is_dead fresh_monitor [] = (False, fresh_monitor, []) \<and>
   object_peek fresh_monitor [] = (4096, fresh_monitor, []) \<and>
   object_refers_to fresh_monitor [] 4096 = (True, fresh_monitor, []) \<and>
   fst (object_is_dead (fresh_monitor\<lparr>f_object := Slot nullptr\<rparr>) [4096]) = True \<and>
   fst (object_is_dead (fresh_monitor\<lparr>f_object := Null_Handle\<rparr>) [4096]) = True \<and>
   fst (object_refers_to (fresh_monitor\<lparr>f_object := Null_Handle\<rparr>) [4096] nullptr) = False"
  using object_queries [of fresh_monitor "[]" 4096]
    object_queries [of "fresh_monitor\<lparr>f_object := Slot nullptr\<rparr>" "[4096]" 0]
    object_queries [of "fresh_monitor\<lparr>f_object := Null_Handle\<rparr>" "[4096]" nullptr]
  by (simp add: fresh_monitor_def nullptr_def object_peek_def object_is_dead_def
      object_refers_to_def peek_load_def)

subsection \<open>Entered, through the monitor or through the lightweight path\<close>

text \<open>
  C8. \<open>is_entered(t)\<close> returns true exactly when either the owner field is the
  anonymous sentinel and \<open>t\<close> holds the lock through the lightweight path (its lock stack
  contains the object under \<open>LM_LIGHTWEIGHT\<close>, it owns the address in \<open>_stack_locker\<close>
  under the other locking modes), or the owner field is the token of \<open>t\<close>. With the
  anonymous sentinel in the owner field the answer is that of the lightweight path alone.
\<close>

theorem is_entered_iff:
  "(is_entered vm m t = Inr True) =
     (is_owner_anonymous m \<and>
        (if LockingMode vm = LM_LIGHTWEIGHT then contains (lock_stack t) (object m)
         else is_lock_owned t (stack_locker m))
      \<or> owner_for vm t = Inr (owner_raw m)) \<and>
   (is_owner_anonymous m \<longrightarrow>
      is_entered vm m t =
        Inr (if LockingMode vm = LM_LIGHTWEIGHT then contains (lock_stack t) (object m)
             else is_stack_locker m t)) \<and>
   (\<not> is_owner_anonymous m \<and> owner_for vm t = Inr tok \<longrightarrow>
      is_entered vm m t = Inr (owner_raw m = tok))"
  using token_not_reserved [of "lock_id t"]
  by (auto simp: is_entered_def is_owner_def is_owner_anonymous_def is_stack_locker_def
      owner_def Let_def owner_for_Inr owner_for_Inl reserved_defs split: sum.splits)

theorem is_entered_iff_witness:
  "is_owner_anonymous (fresh_monitor\<lparr>f_owner := anon_owner_ptr\<rparr>) = True \<and>
   owner_for example_vm example_thread = Inr 3 \<and>
   is_entered example_vm (fresh_monitor\<lparr>f_owner := anon_owner_ptr\<rparr>) example_thread =
     Inr True \<and>
   is_entered example_vm (fresh_monitor\<lparr>f_owner := anon_owner_ptr\<rparr>)
     (example_thread\<lparr>lock_stack := []\<rparr>) = Inr False \<and>
   is_entered (example_vm\<lparr>LockingMode := LM_LEGACY\<rparr>)
     (fresh_monitor\<lparr>f_owner := anon_owner_ptr, f_stack_locker := 28680\<rparr>) example_thread =
     Inr True \<and>
   is_entered example_vm (fresh_monitor\<lparr>f_owner := 3\<rparr>) example_thread = Inr True \<and>
   is_entered example_vm (fresh_monitor\<lparr>f_owner := 4\<rparr>) example_thread = Inr False"
  using is_entered_iff
      [of example_vm "fresh_monitor\<lparr>f_owner := anon_owner_ptr\<rparr>" example_thread 3]
    is_entered_iff
      [of example_vm "fresh_monitor\<lparr>f_owner := anon_owner_ptr\<rparr>"
        "example_thread\<lparr>lock_stack := []\<rparr>" 3]
    is_entered_iff
      [of "example_vm\<lparr>LockingMode := LM_LEGACY\<rparr>"
        "fresh_monitor\<lparr>f_owner := anon_owner_ptr, f_stack_locker := 28680\<rparr>" example_thread 3]
    is_entered_iff [of example_vm "fresh_monitor\<lparr>f_owner := 3\<rparr>" example_thread 3]
    is_entered_iff [of example_vm "fresh_monitor\<lparr>f_owner := 4\<rparr>" example_thread 3]
  by (simp add: is_owner_anonymous_def owner_raw_def owner_for_def example_vm_def
      example_thread_def fresh_monitor_def contains_def object_def is_stack_locker_def
      stack_locker_def reserved_defs word_sle_eq word_sless_alt)

subsection \<open>Tokens and reserved values\<close>

text \<open>
  C9. Every token that \<open>owner_for\<close> returns is at least 3, so it is none of null (0),
  \<open>ANONYMOUS_OWNER\<close> (1) and \<open>DEFLATER_MARKER\<close> (2), and \<open>owner_for\<close> returns the
  \<open>lock_id\<close> of every thread for which 3 \<le> \<open>lock_id\<close> < \<open>ThreadIdentifier::current()\<close>.
  The three reserved values differ from each other; \<open>DEFLATER_MARKER\<close> has its lowest bit
  clear, \<open>ANONYMOUS_OWNER\<close> has it set, and a monitor whose owner field is
  \<open>DEFLATER_MARKER\<close> does not pass \<open>is_owner_anonymous()\<close>.
\<close>

theorem owner_for_not_reserved:
  "(owner_for vm t = Inr tok \<longrightarrow>
      3 \<le> sint tok \<and> tok \<noteq> nullptr \<and> tok \<noteq> anon_owner_ptr \<and> tok \<noteq> DEFLATER_MARKER) \<and>
   (3 \<le> sint (lock_id t) \<and> sint (lock_id t) < sint (ThreadIdentifier_current vm) \<longrightarrow>
      owner_for vm t = Inr (lock_id t)) \<and>
   nullptr \<noteq> anon_owner_ptr \<and> nullptr \<noteq> DEFLATER_MARKER \<and> anon_owner_ptr \<noteq> DEFLATER_MARKER \<and>
   DEFLATER_MARKER AND 1 = 0 \<and> anon_owner_ptr AND 1 = 1 \<and>
   (owner_raw m = DEFLATER_MARKER \<longrightarrow> \<not> is_owner_anonymous m)"
  using token_not_reserved [of "lock_id t"]
  by (auto simp: owner_for_Inr is_owner_anonymous_def reserved_defs)

theorem owner_for_not_reserved_witness:
  "3 \<le> sint (lock_id example_thread) \<and>
   sint (lock_id example_thread) < sint (ThreadIdentifier_current example_vm) \<and>
   owner_for example_vm example_thread = Inr 3 \<and>
   owner_raw (fresh_monitor\<lparr>f_owner := DEFLATER_MARKER\<rparr>) = DEFLATER_MARKER \<and>
   is_owner_anonymous (fresh_monitor\<lparr>f_owner := DEFLATER_MARKER\<rparr>) = False"
  using owner_for_not_reserved
    [of example_vm example_thread 3 "fresh_monitor\<lparr>f_owner := DEFLATER_MARKER\<rparr>"]
  by (simp add: example_vm_def example_thread_def owner_raw_def)

subsection \<open>The contention mark, constructed and destroyed\<close>

text \<open>
  C10, as the code has it. The constructor of \<open>ObjectMonitorContentionMark\<close> adds 1 to
  \<open>_contentions\<close> and the destructor subtracts 1, in 32-bit arithmetic; neither writes
  another field, and the destructor after the constructor gives the monitor back as it
  was. When the count \<open>c\<close> before the constructor is below \<open>INT_MAX\<close>, the count while
  the mark is live is \<open>c + 1\<close>, strictly greater than \<open>c\<close>.
\<close>

theorem contention_mark_round_trip:
  "contentions (ObjectMonitorContentionMark_ctor m) = contentions m + 1 \<and>
   contentions (ObjectMonitorContentionMark_dtor m) = contentions m - 1 \<and>
   ObjectMonitorContentionMark_ctor m = m\<lparr>f_contentions := f_contentions m + 1\<rparr> \<and>
   ObjectMonitorContentionMark_dtor m = m\<lparr>f_contentions := f_contentions m - 1\<rparr> \<and>
   ObjectMonitorContentionMark_dtor (ObjectMonitorContentionMark_ctor m) = m \<and>
   (sint (contentions m) < 2147483647 \<longrightarrow>
      sint (contentions (ObjectMonitorContentionMark_ctor m)) = sint (contentions m) + 1 \<and>
      sint (contentions m) < sint (contentions (ObjectMonitorContentionMark_ctor m)))"
  by (simp add: ObjectMonitorContentionMark_ctor_def ObjectMonitorContentionMark_dtor_def
      add_to_contentions_def contentions_def sint_succ_int)

theorem contention_mark_round_trip_witness:
  "sint (contentions fresh_monitor) < 2147483647 \<and>
   contentions (ObjectMonitorContentionMark_ctor fresh_monitor) = 1 \<and>
   ObjectMonitorContentionMark_dtor (ObjectMonitorContentionMark_ctor fresh_monitor) =
     fresh_monitor \<and>
   sint (contentions fresh_monitor) <
     sint (contentions (ObjectMonitorContentionMark_ctor fresh_monitor))"
  using contention_mark_round_trip [of fresh_monitor]
  by (simp add: contentions_def fresh_monitor_def ObjectMonitorContentionMark_ctor_def
      ObjectMonitorContentionMark_dtor_def add_to_contentions_def)

text \<open>
  C10 as it is written speaks of every initial count. At \<open>INT_MAX\<close> the constructor
  wraps the counter to \<open>INT_MIN\<close>, which is below the initial count.
\<close>

theorem contention_mark_wraps_counterexample:
  "sint (contentions (fresh_monitor\<lparr>f_contentions := 2147483647\<rparr>)) = 2147483647 \<and>
   sint (contentions
     (ObjectMonitorContentionMark_ctor (fresh_monitor\<lparr>f_contentions := 2147483647\<rparr>))) =
     - 2147483648"
  by (simp add: ObjectMonitorContentionMark_ctor_def add_to_contentions_def contentions_def)

end
